theory Spec2Isabelle
  imports Main "HOL-Library.Word"
begin

unbundle bit_operations_syntax

section \<open>Scalars, vectors and quaternions\<close>

text \<open>
  A C++ \<open>float\<close> is kept as its IEEE-754 binary32 bit pattern, so that storing and copying
  a value is exact and two stored values are equal when they are the same bits.
  \<open>uint32\<close> and \<open>int32\<close> are 32-bit words.
\<close>

type_synonym float = "32 word"
type_synonym uint32 = "32 word"
type_synonym int32 = "32 word"

text \<open>The literals \<open>0.0f\<close> and \<open>1.0f\<close>.\<close>

definition f32_zero :: float where
  "f32_zero = 0x00000000"

definition f32_one :: float where
  "f32_one = 0x3F800000"

text \<open>
  \<open>MCore::Vector3\<close> and \<open>MCore::Quaternion\<close> (MCore/Source/Vector.h is not part of the
  sources at hand): three, respectively four, \<open>float\<close> components, built by
  \<open>Vector3(x, y, z)\<close> and \<open>Quaternion(x, y, z, w)\<close>.
\<close>

record Vector3 =
  vx :: float
  vy :: float
  vz :: float

record Quaternion =
  qx :: float
  qy :: float
  qz :: float
  qw :: float

text \<open>
  Raw pointers to objects owned elsewhere (\<open>EMotionFX::ActorInstance*\<close>,
  \<open>MCommon::Camera*\<close>): an address, or \<open>None\<close> for \<open>nullptr\<close>.
\<close>

type_synonym ActorInstance_ptr = "nat option"
type_synonym Camera_ptr = "nat option"

section \<open>ManipulatorCallback\<close>

record ManipulatorCallback =
  mOldValueQuat :: Quaternion
  mCurrValueQuat :: Quaternion
  mOldValueVec :: Vector3
  mCurrValueVec :: Vector3
  mActorInstance :: ActorInstance_ptr

text \<open>\<open>ManipulatorCallback(ActorInstance*, const Vector3&)\<close>\<close>

definition ManipulatorCallback_Vec :: "ActorInstance_ptr \<Rightarrow> Vector3 \<Rightarrow> ManipulatorCallback" where
  "ManipulatorCallback_Vec actorInstance oldValue =
     \<lparr> mOldValueQuat = \<lparr> qx = f32_zero, qy = f32_zero, qz = f32_zero, qw = f32_one \<rparr>,
       mCurrValueQuat = \<lparr> qx = f32_zero, qy = f32_zero, qz = f32_zero, qw = f32_one \<rparr>,
       mOldValueVec = oldValue,
       mCurrValueVec = oldValue,
       mActorInstance = actorInstance \<rparr>"

text \<open>\<open>ManipulatorCallback(ActorInstance*, const Quaternion&)\<close>\<close>

definition ManipulatorCallback_Quat :: "ActorInstance_ptr \<Rightarrow> Quaternion \<Rightarrow> ManipulatorCallback" where
  "ManipulatorCallback_Quat actorInstance oldValue =
     \<lparr> mOldValueQuat = oldValue,
       mCurrValueQuat = oldValue,
       mOldValueVec = \<lparr> vx = f32_zero, vy = f32_zero, vz = f32_zero \<rparr>,
       mCurrValueVec = \<lparr> vx = f32_zero, vy = f32_zero, vz = f32_zero \<rparr>,
       mActorInstance = actorInstance \<rparr>"

text \<open>The two overloads of \<open>Update\<close>.\<close>

definition Update_Vec :: "Vector3 \<Rightarrow> ManipulatorCallback \<Rightarrow> ManipulatorCallback" where
  "Update_Vec val cb = cb\<lparr> mCurrValueVec := val \<rparr>"

definition Update_Quat :: "Quaternion \<Rightarrow> ManipulatorCallback \<Rightarrow> ManipulatorCallback" where
  "Update_Quat val cb = cb\<lparr> mCurrValueQuat := val \<rparr>"

definition UpdateOldValues :: "ManipulatorCallback \<Rightarrow> ManipulatorCallback" where
  "UpdateOldValues cb = cb"

definition GetCurrValueVec :: "ManipulatorCallback \<Rightarrow> Vector3" where
  "GetCurrValueVec cb = mCurrValueVec cb"

definition GetCurrValueQuat :: "ManipulatorCallback \<Rightarrow> Quaternion" where
  "GetCurrValueQuat cb = mCurrValueQuat cb"

definition GetOldValueVec :: "ManipulatorCallback \<Rightarrow> Vector3" where
  "GetOldValueVec cb = mOldValueVec cb"

definition GetOldValueQuat :: "ManipulatorCallback \<Rightarrow> Quaternion" where
  "GetOldValueQuat cb = mOldValueQuat cb"

definition ApplyTransformation :: "ManipulatorCallback \<Rightarrow> ManipulatorCallback" where
  "ApplyTransformation cb =
     (let cb1 = cb\<lparr> mOldValueVec := mCurrValueVec cb \<rparr>
      in cb1\<lparr> mOldValueQuat := mCurrValueQuat cb1 \<rparr>)"

definition GetActorInstance :: "ManipulatorCallback \<Rightarrow> ActorInstance_ptr" where
  "GetActorInstance cb = mActorInstance cb"

definition GetResetFollowMode :: "ManipulatorCallback \<Rightarrow> bool" where
  "GetResetFollowMode cb = False"

text \<open>
  A run of \<open>Update\<close> calls, each with a vector or with a quaternion argument, executed
  from left to right.
\<close>

datatype UpdateArg = ArgVec Vector3 | ArgQuat Quaternion

fun Update :: "UpdateArg \<Rightarrow> ManipulatorCallback \<Rightarrow> ManipulatorCallback" where
  "Update (ArgVec v) cb = Update_Vec v cb"
| "Update (ArgQuat q) cb = Update_Quat q cb"

fun Updates :: "UpdateArg list \<Rightarrow> ManipulatorCallback \<Rightarrow> ManipulatorCallback" where
  "Updates [] cb = cb"
| "Updates (a # as) cb = Updates as (Update a cb)"

section \<open>TransformationManipulator\<close>

datatype EGizmoType =
    GIZMOTYPE_UNKNOWN
  | GIZMOTYPE_TRANSLATION
  | GIZMOTYPE_ROTATION
  | GIZMOTYPE_SCALE

text \<open>
  The manipulator owns its callback, so the field holds the callback's state by value;
  \<open>None\<close> is \<open>nullptr\<close>. \<open>SetCallback\<close> and the destructor, which delete the callback
  object, are not modelled: none of the properties below involves them.
\<close>

record TransformationManipulator =
  mPosition :: Vector3
  mRenderOffset :: Vector3
  mName :: string
  mTempString :: string
  mMode :: uint32
  mScalingFactor :: float
  mCallback :: "ManipulatorCallback option"
  mSelectionLocked :: bool
  mIsVisible :: bool

text \<open>
  \<open>operator+\<close> and \<open>operator-\<close> of \<open>MCore::Vector3\<close> are declared in
  MCore/Source/Vector.h, which is not part of the sources at hand. The operations that
  call them take them as arguments (\<open>vadd\<close>, \<open>vsub\<close>).

  \<open>UpdateBoundingVolumes\<close> is virtual. The operations that call it take the
  implementation the call dispatches to as their argument \<open>ubv\<close>; the base class's
  own implementation is \<open>UpdateBoundingVolumes\<close> below.
\<close>

type_synonym Vector3_op = "Vector3 \<Rightarrow> Vector3 \<Rightarrow> Vector3"
type_synonym UpdateBoundingVolumes_impl =
  "Camera_ptr \<Rightarrow> TransformationManipulator \<Rightarrow> TransformationManipulator"

text \<open>
  \<open>TransformationManipulator(float scalingFactor = 1.0f, bool isVisible = true)\<close>.
  The constructor body assigns six members. \<open>mName\<close> and \<open>mTempString\<close> are
  default-constructed strings, taken as empty. \<open>mMode\<close> is not assigned at all: it keeps
  whatever the object's storage held before, which is the argument \<open>storedMode\<close> here.
\<close>

definition TransformationManipulator_ctor ::
  "uint32 \<Rightarrow> float \<Rightarrow> bool \<Rightarrow> TransformationManipulator" where
  "TransformationManipulator_ctor storedMode scalingFactor isVisible =
     \<lparr> mPosition = \<lparr> vx = f32_zero, vy = f32_zero, vz = f32_zero \<rparr>,
       mRenderOffset = \<lparr> vx = f32_zero, vy = f32_zero, vz = f32_zero \<rparr>,
       mName = [],
       mTempString = [],
       mMode = storedMode,
       mScalingFactor = scalingFactor,
       mCallback = None,
       mSelectionLocked = False,
       mIsVisible = isVisible \<rparr>"

text \<open>The constructor called with both default arguments.\<close>

definition TransformationManipulator_default :: "uint32 \<Rightarrow> TransformationManipulator" where
  "TransformationManipulator_default storedMode =
     TransformationManipulator_ctor storedMode f32_one True"

definition UpdateBoundingVolumes :: UpdateBoundingVolumes_impl where
  "UpdateBoundingVolumes camera m = m"

definition Init ::
  "UpdateBoundingVolumes_impl \<Rightarrow> Vector3_op \<Rightarrow> Vector3 \<Rightarrow>
   TransformationManipulator \<Rightarrow> TransformationManipulator" where
  "Init ubv vadd position m =
     ubv None (m\<lparr> mPosition := vadd position (mRenderOffset m) \<rparr>)"

definition SetName :: "string \<Rightarrow> TransformationManipulator \<Rightarrow> TransformationManipulator" where
  "SetName name m = m\<lparr> mName := name \<rparr>"

definition GetName :: "TransformationManipulator \<Rightarrow> string" where
  "GetName m = mName m"

definition SetSelectionLocked :: "bool \<Rightarrow> TransformationManipulator \<Rightarrow> TransformationManipulator" where
  "SetSelectionLocked selectionLocked m = m\<lparr> mSelectionLocked := selectionLocked \<rparr>"

definition GetSelectionLocked :: "TransformationManipulator \<Rightarrow> bool" where
  "GetSelectionLocked m = mSelectionLocked m"

definition SetIsVisible :: "bool \<Rightarrow> TransformationManipulator \<Rightarrow> TransformationManipulator" where
  "SetIsVisible isVisible m = m\<lparr> mIsVisible := isVisible \<rparr>"

definition SetScale ::
  "UpdateBoundingVolumes_impl \<Rightarrow> float \<Rightarrow> Camera_ptr \<Rightarrow>
   TransformationManipulator \<Rightarrow> TransformationManipulator" where
  "SetScale ubv scale camera m = ubv camera (m\<lparr> mScalingFactor := scale \<rparr>)"

definition SetMode :: "uint32 \<Rightarrow> TransformationManipulator \<Rightarrow> TransformationManipulator" where
  "SetMode mode m = m\<lparr> mMode := mode \<rparr>"

definition GetPosition :: "Vector3_op \<Rightarrow> TransformationManipulator \<Rightarrow> Vector3" where
  "GetPosition vsub m = vsub (mPosition m) (mRenderOffset m)"

definition SetRenderOffset ::
  "UpdateBoundingVolumes_impl \<Rightarrow> Vector3_op \<Rightarrow> Vector3_op \<Rightarrow> Vector3 \<Rightarrow>
   TransformationManipulator \<Rightarrow> TransformationManipulator" where
  "SetRenderOffset ubv vadd vsub offset m =
     (let oldPos = GetPosition vsub m;
          m1 = m\<lparr> mRenderOffset := offset \<rparr>
      in Init ubv vadd oldPos m1)"

definition GetRenderOffset :: "TransformationManipulator \<Rightarrow> Vector3" where
  "GetRenderOffset m = mRenderOffset m"

definition GetCallback :: "TransformationManipulator \<Rightarrow> ManipulatorCallback option" where
  "GetCallback m = mCallback m"

definition GetMode :: "TransformationManipulator \<Rightarrow> uint32" where
  "GetMode m = mMode m"

definition GetIsVisible :: "TransformationManipulator \<Rightarrow> bool" where
  "GetIsVisible m = mIsVisible m"

definition GetType :: "TransformationManipulator \<Rightarrow> EGizmoType" where
  "GetType m = GIZMOTYPE_UNKNOWN"

text \<open>
  The base \<open>ProcessMouseInput\<close>: nine arguments, each only marked unused, and an empty
  body otherwise.
\<close>

definition ProcessMouseInput ::
  "Camera_ptr \<Rightarrow> int32 \<Rightarrow> int32 \<Rightarrow> int32 \<Rightarrow> int32 \<Rightarrow> bool \<Rightarrow> bool \<Rightarrow> bool \<Rightarrow> uint32 \<Rightarrow>
   TransformationManipulator \<Rightarrow> TransformationManipulator" where
  "ProcessMouseInput camera mousePosX mousePosY mouseMovementX mouseMovementY
     leftButtonPressed middleButtonPressed rightButtonPressed keyboardKeyFlags m = m"

section \<open>Single-precision arithmetic\<close>

text \<open>
  The arithmetic of \<open>float\<close> components on the bit patterns: IEEE-754 binary32 addition
  and subtraction, rounding to nearest with ties to even (the default rounding mode).
  A bit pattern has a sign bit, eight exponent bits and 23 fraction bits.
\<close>

definition f32_sign :: "float \<Rightarrow> bool" where
  "f32_sign a = (2 ^ 31 \<le> unat a)"

definition f32_exponent :: "float \<Rightarrow> nat" where
  "f32_exponent a = unat a div 2 ^ 23 mod 2 ^ 8"

definition f32_fraction :: "float \<Rightarrow> nat" where
  "f32_fraction a = unat a mod 2 ^ 23"

definition f32_is_nan :: "float \<Rightarrow> bool" where
  "f32_is_nan a = (f32_exponent a = 255 \<and> f32_fraction a \<noteq> 0)"

definition f32_is_inf :: "float \<Rightarrow> bool" where
  "f32_is_inf a = (f32_exponent a = 255 \<and> f32_fraction a = 0)"

text \<open>
  Every finite value is a whole multiple of \<open>2\<^sup>-\<^sup>1\<^sup>4\<^sup>9\<close>, the smallest subnormal.
  \<open>f32_magnitude\<close> is the absolute value counted in that unit and \<open>f32_scaled\<close> the signed
  value, so that the sum of two finite values is an exact integer sum.
\<close>

definition f32_magnitude :: "float \<Rightarrow> nat" where
  "f32_magnitude a =
     (if f32_exponent a = 0 then f32_fraction a
      else (2 ^ 23 + f32_fraction a) * 2 ^ (f32_exponent a - 1))"

definition f32_scaled :: "float \<Rightarrow> int" where
  "f32_scaled a = (if f32_sign a then - int (f32_magnitude a) else int (f32_magnitude a))"

fun bit_length :: "nat \<Rightarrow> nat" where
  "bit_length n = (if n = 0 then 0 else 1 + bit_length (n div 2))"

declare bit_length.simps [simp del]

text \<open>
  Rounding a magnitude to 24 significant bits: the \<open>k\<close> low bits beyond the 24 leading
  ones are dropped, and the result is rounded up when they are more than half of \<open>2\<^sup>k\<close>,
  or exactly half with an odd quotient.
\<close>

definition f32_round :: "nat \<Rightarrow> nat" where
  "f32_round n =
     (let k = bit_length n - 24; q = n div 2 ^ k; r = n mod 2 ^ k
      in if 2 ^ k < 2 * r \<or> (2 * r = 2 ^ k \<and> odd q) then (q + 1) * 2 ^ k else q * 2 ^ k)"

text \<open>
  The bit pattern of a sign and a rounded magnitude: subnormal below \<open>2\<^sup>2\<^sup>3\<close> units,
  infinity from exponent field 255 on.
\<close>

definition f32_encode :: "bool \<Rightarrow> nat \<Rightarrow> float" where
  "f32_encode s n =
     (let e = bit_length n - 23;
          body = (if n < 2 ^ 23 then n
                  else if 255 \<le> e then 255 * 2 ^ 23
                  else e * 2 ^ 23 + (n div 2 ^ (e - 1) - 2 ^ 23))
      in word_of_nat ((if s then 2 ^ 31 else 0) + body))"

text \<open>
  NaN results, as the x86 SSE instructions \<open>ADDSS\<close> and \<open>SUBSS\<close> give them: a NaN operand
  is returned with its sign and payload and with the quiet bit (bit 22) set, the first
  operand before the second; an invalid operation on two infinities gives the default
  NaN \<open>0xFFC00000\<close>.
\<close>

definition f32_quiet :: "float \<Rightarrow> float" where
  "f32_quiet a = a OR 0x00400000"

definition f32_default_nan :: float where
  "f32_default_nan = 0xFFC00000"

definition f32_nan_result :: "float \<Rightarrow> float \<Rightarrow> float" where
  "f32_nan_result a b =
     (if f32_is_nan a then f32_quiet a
      else if f32_is_nan b then f32_quiet b
      else f32_default_nan)"

definition f32_add :: "float \<Rightarrow> float \<Rightarrow> float" where
  "f32_add a b =
     (if f32_is_nan a \<or> f32_is_nan b \<or> (f32_is_inf a \<and> f32_is_inf b \<and> f32_sign a \<noteq> f32_sign b)
      then f32_nan_result a b
      else if f32_is_inf a then a
      else if f32_is_inf b then b
      else (let v = f32_scaled a + f32_scaled b
            in if v = 0 then f32_encode (f32_sign a \<and> f32_sign b) 0
               else f32_encode (v < 0) (f32_round (nat \<bar>v\<bar>))))"

definition f32_neg :: "float \<Rightarrow> float" where
  "f32_neg a = a XOR 0x80000000"

text \<open>
  \<open>a - b\<close> is \<open>a + (-b)\<close> wherever the result is not a NaN; the NaN cases are decided on
  the operands as given, so that a NaN operand keeps its sign.
\<close>

definition f32_sub :: "float \<Rightarrow> float \<Rightarrow> float" where
  "f32_sub a b =
     (if f32_is_nan a \<or> f32_is_nan b \<or> (f32_is_inf a \<and> f32_is_inf b \<and> f32_sign a = f32_sign b)
      then f32_nan_result a b
      else f32_add a (f32_neg b))"

text \<open>Componentwise single-precision addition and subtraction of vectors.\<close>

definition Vector3_add :: Vector3_op where
  "Vector3_add a b =
     \<lparr> vx = f32_add (vx a) (vx b), vy = f32_add (vy a) (vy b), vz = f32_add (vz a) (vz b) \<rparr>"

definition Vector3_sub :: Vector3_op where
  "Vector3_sub a b =
     \<lparr> vx = f32_sub (vx a) (vx b), vy = f32_sub (vy a) (vy b), vz = f32_sub (vz a) (vz b) \<rparr>"

section \<open>Properties of ManipulatorCallback\<close>

lemma Update_keeps_old:
  "mOldValueVec (Update a cb) = mOldValueVec cb \<and> mOldValueQuat (Update a cb) = mOldValueQuat cb"
  by (cases a) (simp_all add: Update_Vec_def Update_Quat_def)

text \<open>
  C2: whatever finite sequence of \<open>Update\<close> calls (vector or quaternion, in any order) is
  run on a callback, \<open>GetOldValueVec\<close> and \<open>GetOldValueQuat\<close> afterwards return what they
  returned before the first call, that is the values of construction or of the last commit.
\<close>

theorem Updates_leave_old_values:
  "GetOldValueVec (Updates us cb) = GetOldValueVec cb \<and>
   GetOldValueQuat (Updates us cb) = GetOldValueQuat cb"
proof (induction us arbitrary: cb)
  case Nil
  show ?case by simp
next
  case (Cons a us)
  have "GetOldValueVec (Updates us (Update a cb)) = GetOldValueVec (Update a cb)"
    and "GetOldValueQuat (Updates us (Update a cb)) = GetOldValueQuat (Update a cb)"
    using Cons.IH [of "Update a cb"] by simp_all
  then show ?case
    using Update_keeps_old [of a cb]
    by (simp add: GetOldValueVec_def GetOldValueQuat_def)
qed

text \<open>
  C3: the base \<open>ApplyTransformation\<close> commits by copying the current value into the old
  value, from any callback state: afterwards the old vector and the old quaternion are
  the current vector and the current quaternion the callback held before the call, the
  current values and the actor-instance pointer are as before, and so right after the
  call \<open>GetOldValueVec()\<close> equals \<open>GetCurrValueVec()\<close> and \<open>GetOldValueQuat()\<close> equals
  \<open>GetCurrValueQuat()\<close>.
\<close>

theorem ApplyTransformation_collapses:
  "GetOldValueVec (ApplyTransformation cb) = GetCurrValueVec cb \<and>
   GetOldValueQuat (ApplyTransformation cb) = GetCurrValueQuat cb \<and>
   GetCurrValueVec (ApplyTransformation cb) = GetCurrValueVec cb \<and>
   GetCurrValueQuat (ApplyTransformation cb) = GetCurrValueQuat cb \<and>
   GetActorInstance (ApplyTransformation cb) = GetActorInstance cb \<and>
   GetOldValueVec (ApplyTransformation cb) = GetCurrValueVec (ApplyTransformation cb) \<and>
   GetOldValueQuat (ApplyTransformation cb) = GetCurrValueQuat (ApplyTransformation cb)"
  by (simp add: ApplyTransformation_def Let_def GetOldValueVec_def GetOldValueQuat_def
      GetCurrValueVec_def GetCurrValueQuat_def GetActorInstance_def)

text \<open>
  C5: the base \<open>ApplyTransformation\<close> is idempotent: a second call right after the first
  leaves the callback state exactly as the first call left it.
\<close>

theorem ApplyTransformation_idempotent:
  "ApplyTransformation (ApplyTransformation cb) = ApplyTransformation cb"
  by (simp add: ApplyTransformation_def Let_def)

text \<open>
  C6: the vector constructor leaves both quaternion fields at the identity quaternion
  (0, 0, 0, 1), and the quaternion constructor leaves both vector fields at the zero
  vector (0, 0, 0), for every actor-instance pointer and every initial value.
\<close>

theorem constructors_unused_kind_identity:
  "mOldValueQuat (ManipulatorCallback_Vec ai v) = \<lparr> qx = f32_zero, qy = f32_zero, qz = f32_zero, qw = f32_one \<rparr> \<and>
   mCurrValueQuat (ManipulatorCallback_Vec ai v) = \<lparr> qx = f32_zero, qy = f32_zero, qz = f32_zero, qw = f32_one \<rparr> \<and>
   mOldValueVec (ManipulatorCallback_Quat ai q) = \<lparr> vx = f32_zero, vy = f32_zero, vz = f32_zero \<rparr> \<and>
   mCurrValueVec (ManipulatorCallback_Quat ai q) = \<lparr> vx = f32_zero, vy = f32_zero, vz = f32_zero \<rparr>"
  by (simp add: ManipulatorCallback_Vec_def ManipulatorCallback_Quat_def)

text \<open>
  C10: right after either constructor the current value equals the old value for the
  bound kind, and a commit with no \<open>Update\<close> in between changes nothing in the callback.
\<close>

theorem constructors_curr_eq_old:
  "GetCurrValueVec (ManipulatorCallback_Vec ai v) = GetOldValueVec (ManipulatorCallback_Vec ai v) \<and>
   GetCurrValueQuat (ManipulatorCallback_Quat ai q) = GetOldValueQuat (ManipulatorCallback_Quat ai q) \<and>
   ApplyTransformation (ManipulatorCallback_Vec ai v) = ManipulatorCallback_Vec ai v \<and>
   ApplyTransformation (ManipulatorCallback_Quat ai q) = ManipulatorCallback_Quat ai q"
  by (simp add: ManipulatorCallback_Vec_def ManipulatorCallback_Quat_def ApplyTransformation_def
      Let_def GetCurrValueVec_def GetCurrValueQuat_def GetOldValueVec_def GetOldValueQuat_def)

section \<open>Evaluating single-precision sums\<close>

lemmas f32_eval =
  f32_add_def f32_sub_def f32_neg_def f32_is_nan_def f32_is_inf_def f32_exponent_def
  f32_fraction_def f32_sign_def f32_scaled_def f32_magnitude_def f32_encode_def f32_round_def
  f32_nan_result_def f32_quiet_def f32_default_nan_def bit_length.simps Let_def

text \<open>\<open>0 + 0\<close>, \<open>0 - 0\<close>, \<open>1 + 0\<close>, \<open>1 - 0\<close>, \<open>1 + 1\<close> and \<open>2 - 1\<close> are exact.\<close>

lemma f32_add_0_0: "f32_add 0 0 = 0"
  by (simp add: f32_eval)

lemma f32_sub_0_0: "f32_sub 0 0 = 0"
  by (simp add: f32_eval)

lemma f32_add_1_0: "f32_add 0x3F800000 0 = 0x3F800000"
  by (simp add: f32_eval)

lemma f32_sub_1_0: "f32_sub 0x3F800000 0 = 0x3F800000"
  by (simp add: f32_eval)

lemma f32_add_1_1: "f32_add 0x3F800000 0x3F800000 = 0x40000000"
  by (simp add: f32_eval)

lemma f32_sub_2_1: "f32_sub 0x40000000 0x3F800000 = 0x3F800000"
  by (simp add: f32_eval)

text \<open>
  \<open>0x4B800000\<close> is \<open>2\<^sup>2\<^sup>4 = 16777216\<close>. The sum \<open>1 + 2\<^sup>2\<^sup>4\<close> needs 25 significant bits,
  lies halfway between two neighbouring values and is rounded to the even one, \<open>2\<^sup>2\<^sup>4\<close>.
\<close>

lemma f32_add_0_2p24: "f32_add 0 0x4B800000 = 0x4B800000"
  by (simp add: f32_eval)

lemma f32_add_1_2p24: "f32_add 0x3F800000 0x4B800000 = 0x4B800000"
  by (simp add: f32_eval)

lemma f32_sub_2p24_2p24: "f32_sub 0x4B800000 0x4B800000 = 0"
  by (simp add: f32_eval)

text \<open>
  Known single-precision results as a check of the arithmetic above:
  \<open>0.1f + 0.2f\<close> is \<open>0x3E99999A\<close>; \<open>3 + 2\<^sup>2\<^sup>4\<close> rounds up to \<open>2\<^sup>2\<^sup>4 + 4\<close>;
  the largest finite value added to itself overflows to infinity; \<open>-1 + 0.5 = -0.5\<close>;
  the largest subnormal plus the smallest one is the smallest normal value.
\<close>

lemma f32_add_tenth_fifth: "f32_add 0x3DCCCCCD 0x3E4CCCCD = 0x3E99999A"
  by (simp add: f32_eval)

lemma f32_add_3_2p24: "f32_add 0x40400000 0x4B800000 = 0x4B800002"
  by (simp add: f32_eval)

lemma f32_add_max_max: "f32_add 0x7F7FFFFF 0x7F7FFFFF = 0x7F800000"
  by (simp add: f32_eval)

lemma f32_add_neg1_half: "f32_add 0xBF800000 0x3F000000 = 0xBF000000"
  by (simp add: f32_eval)

lemma f32_add_subnormal: "f32_add 0x007FFFFF 1 = 0x00800000"
  by (simp add: f32_eval)

text \<open>
  NaN results: infinity minus infinity is the default NaN; a signalling NaN operand
  \<open>0x7F800001\<close> comes back quieted; a negative quiet NaN subtracted from 1 keeps its sign
  and payload.
\<close>

lemma f32_sub_inf_inf: "f32_sub 0x7F800000 0x7F800000 = 0xFFC00000"
  by (simp add: f32_eval)

lemma f32_add_snan_1: "f32_add 0x7F800001 0x3F800000 = 0x7FC00001"
  by (simp add: f32_eval)

lemma f32_sub_1_qnan: "f32_sub 0x3F800000 0xFFC12345 = 0xFFC12345"
  by (simp add: f32_eval)

section \<open>Properties of TransformationManipulator\<close>

lemma Init_base:
  "Init UpdateBoundingVolumes vadd p m = m\<lparr> mPosition := vadd p (mRenderOffset m) \<rparr>"
  by (simp add: Init_def UpdateBoundingVolumes_def)

lemma SetRenderOffset_base:
  "SetRenderOffset UpdateBoundingVolumes vadd vsub off m =
     m\<lparr> mRenderOffset := off,
        mPosition := vadd (vsub (mPosition m) (mRenderOffset m)) off \<rparr>"
  by (simp add: SetRenderOffset_def Let_def GetPosition_def Init_base)

text \<open>
  C1, as amended: from any state (any prior render offset \<open>r\<close>), after \<open>Init(p)\<close> the call
  \<open>SetRenderOffset(o)\<close> leaves \<open>GetPosition()\<close> unchanged and equal to \<open>p\<close>, provided
  vector subtraction undoes vector addition at both offsets: \<open>(p + r) - r = p\<close> and
  \<open>(p + o) - o = p\<close>. The render offset afterwards is \<open>o\<close>.
\<close>

theorem SetRenderOffset_keeps_position:
  assumes "vsub (vadd p (mRenderOffset m)) (mRenderOffset m) = p"
    and "vsub (vadd p off) off = p"
  shows "GetPosition vsub (Init UpdateBoundingVolumes vadd p m) = p \<and>
         GetPosition vsub
           (SetRenderOffset UpdateBoundingVolumes vadd vsub off
              (Init UpdateBoundingVolumes vadd p m)) = p \<and>
         GetRenderOffset
           (SetRenderOffset UpdateBoundingVolumes vadd vsub off
              (Init UpdateBoundingVolumes vadd p m)) = off"
proof -
  let ?m1 = "Init UpdateBoundingVolumes vadd p m"
  have before: "GetPosition vsub ?m1 = p"
    using assms(1) by (simp add: GetPosition_def Init_base)
  have "GetPosition vsub (SetRenderOffset UpdateBoundingVolumes vadd vsub off ?m1) =
        vsub (vadd (GetPosition vsub ?m1) off) off"
    by (simp add: SetRenderOffset_base GetPosition_def)
  then have after: "GetPosition vsub (SetRenderOffset UpdateBoundingVolumes vadd vsub off ?m1) = p"
    using before assms(2) by simp
  have "GetRenderOffset (SetRenderOffset UpdateBoundingVolumes vadd vsub off ?m1) = off"
    by (simp add: SetRenderOffset_base GetRenderOffset_def)
  with before after show ?thesis by simp
qed

text \<open>
  Witness for C1 in single precision: a fresh manipulator, \<open>p = (1, 0, 0)\<close> and
  \<open>o = (1, 0, 0)\<close>, where every sum is exact.
\<close>

theorem SetRenderOffset_keeps_position_witness:
  "Vector3_sub
     (Vector3_add \<lparr> vx = 0x3F800000, vy = 0, vz = 0 \<rparr>
        (mRenderOffset (TransformationManipulator_default 0)))
     (mRenderOffset (TransformationManipulator_default 0))
   = \<lparr> vx = 0x3F800000, vy = 0, vz = 0 \<rparr> \<and>
   Vector3_sub
     (Vector3_add \<lparr> vx = 0x3F800000, vy = 0, vz = 0 \<rparr> \<lparr> vx = 0x3F800000, vy = 0, vz = 0 \<rparr>)
     \<lparr> vx = 0x3F800000, vy = 0, vz = 0 \<rparr>
   = \<lparr> vx = 0x3F800000, vy = 0, vz = 0 \<rparr> \<and>
   GetPosition Vector3_sub
     (SetRenderOffset UpdateBoundingVolumes Vector3_add Vector3_sub
        \<lparr> vx = 0x3F800000, vy = 0, vz = 0 \<rparr>
        (Init UpdateBoundingVolumes Vector3_add \<lparr> vx = 0x3F800000, vy = 0, vz = 0 \<rparr>
           (TransformationManipulator_default 0)))
   = \<lparr> vx = 0x3F800000, vy = 0, vz = 0 \<rparr>"
proof -
  let ?p = "\<lparr> vx = 0x3F800000, vy = 0, vz = 0 \<rparr> :: Vector3"
  let ?m = "TransformationManipulator_default 0"
  have h1: "Vector3_sub (Vector3_add ?p (mRenderOffset ?m)) (mRenderOffset ?m) = ?p"
    by (simp add: Vector3_add_def Vector3_sub_def TransformationManipulator_default_def
        TransformationManipulator_ctor_def f32_zero_def
        f32_add_1_0 f32_sub_1_0 f32_add_0_0 f32_sub_0_0)
  have h2: "Vector3_sub (Vector3_add ?p ?p) ?p = ?p"
    by (simp add: Vector3_add_def Vector3_sub_def f32_add_1_1 f32_sub_2_1 f32_add_0_0 f32_sub_0_0)
  show ?thesis
    using h1 h2 SetRenderOffset_keeps_position [of Vector3_sub Vector3_add ?p ?m ?p, OF h1 h2]
    by simp
qed

text \<open>
  C1 as stated fails in single precision: on a fresh manipulator, after \<open>Init((1, 0, 0))\<close>
  the position reads \<open>(1, 0, 0)\<close>; after \<open>SetRenderOffset((16777216, 0, 0))\<close> it reads
  \<open>(0, 0, 0)\<close>.
\<close>

theorem SetRenderOffset_position_counterexample:
  "GetPosition Vector3_sub
     (Init UpdateBoundingVolumes Vector3_add \<lparr> vx = 0x3F800000, vy = 0, vz = 0 \<rparr>
        (TransformationManipulator_default 0))
   = \<lparr> vx = 0x3F800000, vy = 0, vz = 0 \<rparr> \<and>
   GetPosition Vector3_sub
     (SetRenderOffset UpdateBoundingVolumes Vector3_add Vector3_sub
        \<lparr> vx = 0x4B800000, vy = 0, vz = 0 \<rparr>
        (Init UpdateBoundingVolumes Vector3_add \<lparr> vx = 0x3F800000, vy = 0, vz = 0 \<rparr>
           (TransformationManipulator_default 0)))
   = \<lparr> vx = 0, vy = 0, vz = 0 \<rparr> \<and>
   GetPosition Vector3_sub
     (SetRenderOffset UpdateBoundingVolumes Vector3_add Vector3_sub
        \<lparr> vx = 0x4B800000, vy = 0, vz = 0 \<rparr>
        (Init UpdateBoundingVolumes Vector3_add \<lparr> vx = 0x3F800000, vy = 0, vz = 0 \<rparr>
           (TransformationManipulator_default 0)))
   \<noteq> \<lparr> vx = 0x3F800000, vy = 0, vz = 0 \<rparr>"
  by (simp add: SetRenderOffset_base Init_base GetPosition_def Vector3_add_def Vector3_sub_def
      TransformationManipulator_default_def TransformationManipulator_ctor_def f32_zero_def
      f32_add_1_0 f32_sub_1_0 f32_add_0_0 f32_sub_0_0 f32_add_1_2p24 f32_sub_2p24_2p24)

text \<open>
  C4, as amended: after \<open>Init(p)\<close>, from any state, the stored position is
  \<open>p + renderOffset\<close>, the render offset is untouched, and \<open>GetPosition()\<close> is the stored
  position minus the render offset; it returns \<open>p\<close> itself whenever the subtraction
  undoes the addition, \<open>(p + renderOffset) - renderOffset = p\<close>.
\<close>

theorem Init_position:
  "mPosition (Init UpdateBoundingVolumes vadd p m) = vadd p (mRenderOffset m) \<and>
   mRenderOffset (Init UpdateBoundingVolumes vadd p m) = mRenderOffset m \<and>
   GetPosition vsub (Init UpdateBoundingVolumes vadd p m) =
     vsub (mPosition (Init UpdateBoundingVolumes vadd p m))
          (mRenderOffset (Init UpdateBoundingVolumes vadd p m)) \<and>
   (vsub (vadd p (mRenderOffset m)) (mRenderOffset m) = p \<longrightarrow>
      GetPosition vsub (Init UpdateBoundingVolumes vadd p m) = p)"
  by (simp add: Init_base GetPosition_def)

text \<open>
  Witness for C4 in single precision: the render offset is \<open>(1, 0, 0)\<close> and
  \<open>p = (1, 0, 0)\<close>; the stored position is \<open>(2, 0, 0)\<close> and \<open>GetPosition()\<close> is \<open>p\<close>.
\<close>

theorem Init_position_witness:
  "Vector3_sub
     (Vector3_add \<lparr> vx = 0x3F800000, vy = 0, vz = 0 \<rparr> \<lparr> vx = 0x3F800000, vy = 0, vz = 0 \<rparr>)
     \<lparr> vx = 0x3F800000, vy = 0, vz = 0 \<rparr>
   = \<lparr> vx = 0x3F800000, vy = 0, vz = 0 \<rparr> \<and>
   GetPosition Vector3_sub
     (Init UpdateBoundingVolumes Vector3_add \<lparr> vx = 0x3F800000, vy = 0, vz = 0 \<rparr>
        ((TransformationManipulator_default 0)
           \<lparr> mRenderOffset := \<lparr> vx = 0x3F800000, vy = 0, vz = 0 \<rparr> \<rparr>))
   = \<lparr> vx = 0x3F800000, vy = 0, vz = 0 \<rparr>"
proof -
  let ?p = "\<lparr> vx = 0x3F800000, vy = 0, vz = 0 \<rparr> :: Vector3"
  let ?m = "(TransformationManipulator_default 0)\<lparr> mRenderOffset := ?p \<rparr>"
  have h: "Vector3_sub (Vector3_add ?p (mRenderOffset ?m)) (mRenderOffset ?m) = ?p"
    by (simp add: Vector3_add_def Vector3_sub_def f32_add_1_1 f32_sub_2_1 f32_add_0_0 f32_sub_0_0)
  have "GetPosition Vector3_sub (Init UpdateBoundingVolumes Vector3_add ?p ?m) = ?p"
    using Init_position [of Vector3_add ?p ?m Vector3_sub] h by blast
  with h show ?thesis by simp
qed

text \<open>
  C4 as stated fails in single precision: with render offset \<open>(16777216, 0, 0)\<close>, set
  on a fresh manipulator by \<open>SetRenderOffset\<close>, \<open>Init((1, 0, 0))\<close> stores
  \<open>(16777216, 0, 0)\<close> and \<open>GetPosition()\<close> returns \<open>(0, 0, 0)\<close>.
\<close>

theorem Init_position_counterexample:
  "mRenderOffset
     (SetRenderOffset UpdateBoundingVolumes Vector3_add Vector3_sub
        \<lparr> vx = 0x4B800000, vy = 0, vz = 0 \<rparr> (TransformationManipulator_default 0))
   = \<lparr> vx = 0x4B800000, vy = 0, vz = 0 \<rparr> \<and>
   GetPosition Vector3_sub
     (Init UpdateBoundingVolumes Vector3_add \<lparr> vx = 0x3F800000, vy = 0, vz = 0 \<rparr>
        (SetRenderOffset UpdateBoundingVolumes Vector3_add Vector3_sub
           \<lparr> vx = 0x4B800000, vy = 0, vz = 0 \<rparr> (TransformationManipulator_default 0)))
   = \<lparr> vx = 0, vy = 0, vz = 0 \<rparr> \<and>
   GetPosition Vector3_sub
     (Init UpdateBoundingVolumes Vector3_add \<lparr> vx = 0x3F800000, vy = 0, vz = 0 \<rparr>
        (SetRenderOffset UpdateBoundingVolumes Vector3_add Vector3_sub
           \<lparr> vx = 0x4B800000, vy = 0, vz = 0 \<rparr> (TransformationManipulator_default 0)))
   \<noteq> \<lparr> vx = 0x3F800000, vy = 0, vz = 0 \<rparr>"
  by (simp add: SetRenderOffset_base Init_base GetPosition_def Vector3_add_def Vector3_sub_def
      TransformationManipulator_default_def TransformationManipulator_ctor_def f32_zero_def
      f32_add_0_0 f32_sub_0_0 f32_add_0_2p24 f32_add_1_2p24 f32_sub_2p24_2p24)

text \<open>
  C7: the base \<open>ProcessMouseInput\<close> returns the manipulator, callback included, exactly
  as it received it, for every camera, mouse position, mouse movement, button state and
  keyboard flag word; so it does on a selection-locked manipulator.
\<close>

theorem ProcessMouseInput_noop:
  "ProcessMouseInput camera mousePosX mousePosY mouseMovementX mouseMovementY
     leftButtonPressed middleButtonPressed rightButtonPressed keyboardKeyFlags m = m \<and>
   ProcessMouseInput camera mousePosX mousePosY mouseMovementX mouseMovementY
     leftButtonPressed middleButtonPressed rightButtonPressed keyboardKeyFlags
     (SetSelectionLocked True m) = SetSelectionLocked True m \<and>
   GetCallback
     (ProcessMouseInput camera mousePosX mousePosY mouseMovementX mouseMovementY
        leftButtonPressed middleButtonPressed rightButtonPressed keyboardKeyFlags m)
   = GetCallback m"
  by (simp add: ProcessMouseInput_def)

text \<open>
  C8: \<open>SetScale(s, c)\<close> stores \<open>s\<close> as the scaling factor and then hands the manipulator,
  with the camera \<open>c\<close> it was given, to whichever \<open>UpdateBoundingVolumes\<close> the call
  dispatches to. With the base implementation the result differs from the state before in
  the scaling factor only: position, render offset, visibility, lock state, mode and
  callback are as before.
\<close>

theorem SetScale_effect:
  "SetScale ubv s c m = ubv c (m\<lparr> mScalingFactor := s \<rparr>) \<and>
   SetScale UpdateBoundingVolumes s c m = m\<lparr> mScalingFactor := s \<rparr> \<and>
   mScalingFactor (SetScale UpdateBoundingVolumes s c m) = s \<and>
   mPosition (SetScale UpdateBoundingVolumes s c m) = mPosition m \<and>
   mRenderOffset (SetScale UpdateBoundingVolumes s c m) = mRenderOffset m \<and>
   mIsVisible (SetScale UpdateBoundingVolumes s c m) = mIsVisible m \<and>
   mSelectionLocked (SetScale UpdateBoundingVolumes s c m) = mSelectionLocked m \<and>
   mMode (SetScale UpdateBoundingVolumes s c m) = mMode m \<and>
   mCallback (SetScale UpdateBoundingVolumes s c m) = mCallback m"
  by (simp add: SetScale_def UpdateBoundingVolumes_def)

text \<open>
  C9, as amended: a default-constructed manipulator has the zero vector as position and as
  render offset, no callback and the selection lock off, while its scaling factor is
  \<open>1.0\<close> and it is visible. Nothing is said about the mode: the constructor does not
  assign it.
\<close>

theorem default_constructed_state:
  "mPosition (TransformationManipulator_default storedMode) = \<lparr> vx = f32_zero, vy = f32_zero, vz = f32_zero \<rparr> \<and>
   GetRenderOffset (TransformationManipulator_default storedMode) = \<lparr> vx = f32_zero, vy = f32_zero, vz = f32_zero \<rparr> \<and>
   GetCallback (TransformationManipulator_default storedMode) = None \<and>
   GetSelectionLocked (TransformationManipulator_default storedMode) = False \<and>
   mScalingFactor (TransformationManipulator_default storedMode) = f32_one \<and>
   GetIsVisible (TransformationManipulator_default storedMode) = True"
  by (simp add: TransformationManipulator_default_def TransformationManipulator_ctor_def
      GetRenderOffset_def GetCallback_def GetSelectionLocked_def GetIsVisible_def)

text \<open>
  C9 as stated fails: the default scaling factor is \<open>1.0\<close>, not zero, the default
  visibility is true, and \<open>GetMode()\<close> before any \<open>SetMode\<close> returns what the storage
  held, here 7.
\<close>

theorem default_constructed_counterexample:
  "mScalingFactor (TransformationManipulator_default 7) \<noteq> f32_zero \<and>
   GetIsVisible (TransformationManipulator_default 7) \<noteq> False \<and>
   GetMode (TransformationManipulator_default 7) \<noteq> 0"
  by (simp add: TransformationManipulator_default_def TransformationManipulator_ctor_def
      GetIsVisible_def GetMode_def f32_zero_def f32_one_def)

end
